theory Spec2Isabelle
  imports Main "HOL-Library.Word" "HOL-Library.Signed_Division"
begin

section \<open>Wire messages of the protocol client (package p2p)\<close>

text \<open>
  The Go interface \<^verbatim>\<open>Message\<close> has the two methods \<^verbatim>\<open>Code() int\<close> and
  \<^verbatim>\<open>ReqID() uint64\<close>. Its implementations are one constructor each of the
  datatype below. Values whose Go type is declared in go-ethereum (packet
  bodies of the eth and snap packages, \<^verbatim>\<open>p2p.Cap\<close>, \<^verbatim>\<open>p2p.DiscReason\<close>) are
  kept opaque in the type parameter \<open>'p\<close>; the request id of the eth/66 and
  snap packets is the one field of them the methods read, so it is kept apart.
\<close>

type_synonym bytes = "8 word list"
type_synonym hash = "256 word"
type_synonym uint64 = "64 word"

text \<open>The payload of \<^verbatim>\<open>Error\<close>: what \<^verbatim>\<open>errorf\<close> and \<^verbatim>\<open>fmt.Errorf\<close> are called with.\<close>

datatype error =
    CouldNotRead string
  | CouldNotDecode
  | InvalidCode uint64
  | InvalidMessage bytes
  | TimedOut

record 'p Hello_fields =
  Version :: uint64
  Name :: string
  Caps :: "'p list"
  ListenPort :: uint64
  ID :: bytes
  Rest :: "bytes list"

datatype 'p Message =
    Error error
  | Hello "'p Hello_fields"
  | Disconnect 'p
  | Disconnects "'p list"
  | Ping
  | Pong
  | Status 'p
  | NewBlockHashes 'p
  | Transactions 'p
  | GetBlockHeaders uint64 'p
  | BlockHeaders uint64 'p
  | GetBlockBodies uint64 'p
  | BlockBodies uint64 'p
  | NewBlock 'p
  | NewPooledTransactionHashes66 "hash list"
  | NewPooledTransactionHashes bytes "32 word list" "hash list"
  | GetPooledTransactions uint64 'p
  | PooledTransactions uint64 'p
  | GetAccountRange uint64 'p
  | AccountRange uint64 'p
  | GetStorageRanges uint64 'p
  | StorageRanges uint64 'p
  | GetByteCodes uint64 'p
  | ByteCodes uint64 'p
  | GetTrieNodes uint64 'p
  | TrieNodes uint64 'p

fun Code :: "'p Message \<Rightarrow> int" where
  "Code (Error e) = - 1"
| "Code (Hello h) = 0x00"
| "Code (Disconnect r) = 0x01"
| "Code (Disconnects rs) = 0x01"
| "Code Ping = 0x02"
| "Code Pong = 0x03"
| "Code (Status b) = 16"
| "Code (NewBlockHashes b) = 17"
| "Code (Transactions b) = 18"
| "Code (GetBlockHeaders i b) = 19"
| "Code (BlockHeaders i b) = 20"
| "Code (GetBlockBodies i b) = 21"
| "Code (BlockBodies i b) = 22"
| "Code (NewBlock b) = 23"
| "Code (NewPooledTransactionHashes66 hs) = 24"
| "Code (NewPooledTransactionHashes ts ss hs) = 24"
| "Code (GetPooledTransactions i b) = 25"
| "Code (PooledTransactions i b) = 26"
| "Code (GetAccountRange i b) = 33"
| "Code (AccountRange i b) = 34"
| "Code (GetStorageRanges i b) = 35"
| "Code (StorageRanges i b) = 36"
| "Code (GetByteCodes i b) = 37"
| "Code (ByteCodes i b) = 38"
| "Code (GetTrieNodes i b) = 39"
| "Code (TrieNodes i b) = 40"

fun ReqID :: "'p Message \<Rightarrow> uint64" where
  "ReqID (Error e) = 0"
| "ReqID (Hello h) = 0"
| "ReqID (Disconnect r) = 0"
| "ReqID (Disconnects rs) = 0"
| "ReqID Ping = 0"
| "ReqID Pong = 0"
| "ReqID (Status b) = 0"
| "ReqID (NewBlockHashes b) = 0"
| "ReqID (Transactions b) = 18"
| "ReqID (GetBlockHeaders i b) = i"
| "ReqID (BlockHeaders i b) = i"
| "ReqID (GetBlockBodies i b) = i"
| "ReqID (BlockBodies i b) = i"
| "ReqID (NewBlock b) = 0"
| "ReqID (NewPooledTransactionHashes66 hs) = 0"
| "ReqID (NewPooledTransactionHashes ts ss hs) = 0"
| "ReqID (GetPooledTransactions i b) = i"
| "ReqID (PooledTransactions i b) = i"
| "ReqID (GetAccountRange i b) = i"
| "ReqID (AccountRange i b) = i"
| "ReqID (GetStorageRanges i b) = i"
| "ReqID (StorageRanges i b) = i"
| "ReqID (GetByteCodes i b) = i"
| "ReqID (ByteCodes i b) = i"
| "ReqID (GetTrieNodes i b) = i"
| "ReqID (TrieNodes i b) = i"

section \<open>Reading frames from a connection\<close>

text \<open>
  \<^verbatim>\<open>c.Conn.Read()\<close> of the encrypted transport returns a wire code and the raw
  body, or an error. \<^verbatim>\<open>rlp.DecodeBytes\<close> belongs to go-ethereum: the model takes
  it as a parameter, one decoder for each Go type it is called with, \<open>None\<close>
  standing for a returned error.
\<close>

datatype read_result = ReadFailed string | Frame uint64 bytes

record 'p decoders =
  decHello :: "bytes \<Rightarrow> 'p Hello_fields option"
  decDisconnect :: "bytes \<Rightarrow> 'p option"
  decDisconnects :: "bytes \<Rightarrow> 'p list option"
  decPing :: "bytes \<Rightarrow> unit option"
  decPong :: "bytes \<Rightarrow> unit option"
  decStatus :: "bytes \<Rightarrow> 'p option"
  decNewBlockHashes :: "bytes \<Rightarrow> 'p option"
  decTransactions :: "bytes \<Rightarrow> 'p option"
  decGetBlockHeaders :: "bytes \<Rightarrow> (uint64 \<times> 'p) option"
  decBlockHeaders :: "bytes \<Rightarrow> (uint64 \<times> 'p) option"
  decGetBlockBodies :: "bytes \<Rightarrow> (uint64 \<times> 'p) option"
  decBlockBodies :: "bytes \<Rightarrow> (uint64 \<times> 'p) option"
  decNewBlock :: "bytes \<Rightarrow> 'p option"
  decNewPooledTransactionHashes66 :: "bytes \<Rightarrow> hash list option"
  decNewPooledTransactionHashes :: "bytes \<Rightarrow> (bytes \<times> 32 word list \<times> hash list) option"
  decGetPooledTransactions :: "bytes \<Rightarrow> (uint64 \<times> 'p) option"
  decPooledTransactions :: "bytes \<Rightarrow> (uint64 \<times> 'p) option"
  decError :: "bytes \<Rightarrow> unit option"
  decGetAccountRange :: "bytes \<Rightarrow> (uint64 \<times> 'p) option"
  decAccountRange :: "bytes \<Rightarrow> (uint64 \<times> 'p) option"
  decGetStorageRanges :: "bytes \<Rightarrow> (uint64 \<times> 'p) option"
  decStorageRanges :: "bytes \<Rightarrow> (uint64 \<times> 'p) option"
  decGetByteCodes :: "bytes \<Rightarrow> (uint64 \<times> 'p) option"
  decByteCodes :: "bytes \<Rightarrow> (uint64 \<times> 'p) option"
  decGetTrieNodes :: "bytes \<Rightarrow> (uint64 \<times> 'p) option"
  decTrieNodes :: "bytes \<Rightarrow> (uint64 \<times> 'p) option"

text \<open>
  \<^verbatim>\<open>new(T)\<close> followed by \<^verbatim>\<open>rlp.DecodeBytes(rawData, msg)\<close>: the target \<open>msg\<close> is
  modelled by the decoder of its Go type, returning the filled message.
\<close>

type_synonym 'p target = "bytes \<Rightarrow> 'p Message option"

definition new_msg :: "('a \<Rightarrow> 'p Message) \<Rightarrow> (bytes \<Rightarrow> 'a option) \<Rightarrow> 'p target" where
  "new_msg mk d = (\<lambda>rawData. map_option mk (d rawData))"

definition new_req :: "(uint64 \<Rightarrow> 'p \<Rightarrow> 'p Message) \<Rightarrow> (bytes \<Rightarrow> (uint64 \<times> 'p) option) \<Rightarrow> 'p target" where
  "new_req mk d = (\<lambda>rawData. map_option (\<lambda>(i, b). mk i b) (d rawData))"

text \<open>
  The eth/66 request and response cases of \<^verbatim>\<open>Read\<close>: decode, return an error
  message on failure and the converted packet otherwise.
\<close>

definition decode_or_error :: "'p target \<Rightarrow> bytes \<Rightarrow> 'p Message" where
  "decode_or_error t rawData =
     (case t rawData of None \<Rightarrow> Error CouldNotDecode | Some m \<Rightarrow> m)"

text \<open>
  The \<^verbatim>\<open>switch int(code)\<close> of \<^verbatim>\<open>Conn.Read\<close>, its cases in the order of the
  source. A case either returns (\<open>Inl\<close>) or leaves the variable \<open>msg\<close>
  (\<open>Inr\<close>, \<open>None\<close> for a nil \<open>msg\<close>). The case labels are the \<^verbatim>\<open>Code()\<close> of the
  zero value of each type.
\<close>

definition Read_switch :: "'p decoders \<Rightarrow> uint64 \<Rightarrow> bytes \<Rightarrow> 'p Message + 'p target option" where
  "Read_switch dec code rawData =
    (let c = sint code in
     if c = 0x00 then Inr (Some (new_msg Hello (decHello dec)))
     else if c = 0x02 then Inr (Some (new_msg (\<lambda>_. Ping) (decPing dec)))
     else if c = 0x03 then Inr (Some (new_msg (\<lambda>_. Pong) (decPong dec)))
     else if c = 0x01 then
       (case new_msg Disconnects (decDisconnects dec) rawData of
          None \<Rightarrow> Inr (Some (new_msg Disconnect (decDisconnect dec)))
        | Some m \<Rightarrow> Inr (Some (new_msg Disconnects (decDisconnects dec))))
     else if c = 16 then Inr (Some (new_msg Status (decStatus dec)))
     else if c = 19 then Inl (decode_or_error (new_req GetBlockHeaders (decGetBlockHeaders dec)) rawData)
     else if c = 20 then Inl (decode_or_error (new_req BlockHeaders (decBlockHeaders dec)) rawData)
     else if c = 21 then Inl (decode_or_error (new_req GetBlockBodies (decGetBlockBodies dec)) rawData)
     else if c = 22 then Inl (decode_or_error (new_req BlockBodies (decBlockBodies dec)) rawData)
     else if c = 23 then Inr (Some (new_msg NewBlock (decNewBlock dec)))
     else if c = 17 then Inr (Some (new_msg NewBlockHashes (decNewBlockHashes dec)))
     else if c = 18 then Inr (Some (new_msg Transactions (decTransactions dec)))
     else if c = 24 then
       (case decNewPooledTransactionHashes dec rawData of
          Some (ts, ss, hs) \<Rightarrow> Inl (NewPooledTransactionHashes ts ss hs)
        | None \<Rightarrow> Inr (Some (new_msg NewPooledTransactionHashes66 (decNewPooledTransactionHashes66 dec))))
     else if c = 25 then Inl (decode_or_error (new_req GetPooledTransactions (decGetPooledTransactions dec)) rawData)
     else if c = 26 then Inl (decode_or_error (new_req PooledTransactions (decPooledTransactions dec)) rawData)
     else Inr (Some (new_msg (\<lambda>_. Error (InvalidCode code)) (decError dec))))"

definition Read :: "'p decoders \<Rightarrow> read_result \<Rightarrow> 'p Message" where
  "Read dec r =
    (case r of
       ReadFailed err \<Rightarrow> Error (CouldNotRead err)
     | Frame code rawData \<Rightarrow>
         (case Read_switch dec code rawData of
            Inl m \<Rightarrow> m
          | Inr None \<Rightarrow> Error (InvalidMessage rawData)
          | Inr (Some msg) \<Rightarrow>
              (case msg rawData of
                 None \<Rightarrow> Error CouldNotDecode
               | Some m \<Rightarrow> m)))"

text \<open>The wire codes \<^verbatim>\<open>Read\<close> has a case for, in the order of its \<^verbatim>\<open>switch\<close>.\<close>

definition Read_codes :: "int list" where
  "Read_codes = [0x00, 0x02, 0x03, 0x01, 16, 19, 20, 21, 22, 23, 17, 18, 24, 25, 26]"

subsection \<open>The decoding of section 4.2, as an ordered list of candidates\<close>

text \<open>
  The specification describes \<^verbatim>\<open>read\<close> as trying, for the frame's code, the
  message shapes of that code in order until one decodes. \<open>spec_candidates\<close>
  follows those words (the multi-reason disconnect before the single-reason
  one, the typed pooled-transaction announcement before the legacy one);
  \<open>first_decoded\<close> tries a list of candidates in order.
\<close>

fun first_decoded :: "'p target list \<Rightarrow> bytes \<Rightarrow> 'p Message option" where
  "first_decoded [] rawData = None"
| "first_decoded (t # ts) rawData =
     (case t rawData of Some m \<Rightarrow> Some m | None \<Rightarrow> first_decoded ts rawData)"

definition spec_candidates :: "'p decoders \<Rightarrow> int \<Rightarrow> 'p target list" where
  "spec_candidates dec c =
    (if c = 0x00 then [new_msg Hello (decHello dec)]
     else if c = 0x01 then [new_msg Disconnects (decDisconnects dec),
                            new_msg Disconnect (decDisconnect dec)]
     else if c = 0x02 then [new_msg (\<lambda>_. Ping) (decPing dec)]
     else if c = 0x03 then [new_msg (\<lambda>_. Pong) (decPong dec)]
     else if c = 16 then [new_msg Status (decStatus dec)]
     else if c = 17 then [new_msg NewBlockHashes (decNewBlockHashes dec)]
     else if c = 18 then [new_msg Transactions (decTransactions dec)]
     else if c = 19 then [new_req GetBlockHeaders (decGetBlockHeaders dec)]
     else if c = 20 then [new_req BlockHeaders (decBlockHeaders dec)]
     else if c = 21 then [new_req GetBlockBodies (decGetBlockBodies dec)]
     else if c = 22 then [new_req BlockBodies (decBlockBodies dec)]
     else if c = 23 then [new_msg NewBlock (decNewBlock dec)]
     else if c = 24 then
       [new_msg (\<lambda>(ts, ss, hs). NewPooledTransactionHashes ts ss hs)
          (decNewPooledTransactionHashes dec),
        new_msg NewPooledTransactionHashes66 (decNewPooledTransactionHashes66 dec)]
     else if c = 25 then [new_req GetPooledTransactions (decGetPooledTransactions dec)]
     else if c = 26 then [new_req PooledTransactions (decPooledTransactions dec)]
     else [])"

subsection \<open>Reading a state-sync response\<close>

text \<open>
  The \<^verbatim>\<open>switch int(code)\<close> of \<^verbatim>\<open>Conn.ReadSnap\<close>: the target allocated for a snap
  code, \<open>None\<close> for the \<^verbatim>\<open>default\<close> case, which is \<^verbatim>\<open>continue\<close>.
\<close>

definition ReadSnap_switch :: "'p decoders \<Rightarrow> uint64 \<Rightarrow> 'p target option" where
  "ReadSnap_switch dec code =
    (let c = sint code in
     if c = 33 then Some (new_req GetAccountRange (decGetAccountRange dec))
     else if c = 34 then Some (new_req AccountRange (decAccountRange dec))
     else if c = 35 then Some (new_req GetStorageRanges (decGetStorageRanges dec))
     else if c = 36 then Some (new_req StorageRanges (decStorageRanges dec))
     else if c = 37 then Some (new_req GetByteCodes (decGetByteCodes dec))
     else if c = 38 then Some (new_req ByteCodes (decByteCodes dec))
     else if c = 39 then Some (new_req GetTrieNodes (decGetTrieNodes dec))
     else if c = 40 then Some (new_req TrieNodes (decTrieNodes dec))
     else None)"

text \<open>
  The loop of \<^verbatim>\<open>ReadSnap\<close> runs against the clock and the connection. Its
  environment is a script: one entry for each evaluation of the loop
  condition, holding the value of \<^verbatim>\<open>time.Since(start)\<close> read there and the
  result of the \<^verbatim>\<open>c.Conn.Read()\<close> that follows when the condition holds. The
  read blocks: when the script is used up no further frame arrives and the
  call does not return, which is the value \<open>None\<close>. The package variable
  \<^verbatim>\<open>timeout\<close> is a parameter. The result is Go's pair: \<open>Inl\<close> for
  \<^verbatim>\<open>(nil, err)\<close> and \<open>Inr\<close> for \<^verbatim>\<open>(msg, nil)\<close>.
\<close>

type_synonym Duration = "64 word"

fun ReadSnap_loop ::
  "'p decoders \<Rightarrow> Duration \<Rightarrow> uint64 \<Rightarrow> uint64 \<Rightarrow> (Duration \<times> read_result) list
     \<Rightarrow> (error + 'p Message) option" where
  "ReadSnap_loop dec timeout rid respId [] = None"
| "ReadSnap_loop dec timeout rid respId ((elapsed, r) # script) =
     (if respId \<noteq> rid \<and> elapsed <s timeout then
        (case r of
           ReadFailed err \<Rightarrow> Some (Inl (CouldNotRead err))
         | Frame code rawData \<Rightarrow>
             (case ReadSnap_switch dec code of
                None \<Rightarrow> ReadSnap_loop dec timeout rid respId script
              | Some snpMsg \<Rightarrow>
                  (case snpMsg rawData of
                     None \<Rightarrow> Some (Inl CouldNotDecode)
                   | Some m \<Rightarrow> Some (Inr m))))
      else Some (Inl TimedOut))"

definition ReadSnap ::
  "'p decoders \<Rightarrow> Duration \<Rightarrow> uint64 \<Rightarrow> (Duration \<times> read_result) list
     \<Rightarrow> (error + 'p Message) option" where
  "ReadSnap dec timeout rid script = ReadSnap_loop dec timeout rid (rid + 1) script"

text \<open>
  The state-sync wire codes of the table of wire codes, and the message shape
  the table gives each of them: 33 get-account-range, 34 account-range, 35
  get-storage-ranges, 36 storage-ranges, 37 get-byte-codes, 38 byte-codes, 39
  get-trie-nodes, 40 trie-nodes. Both follow the table, not the \<^verbatim>\<open>switch\<close> of
  \<^verbatim>\<open>ReadSnap\<close>, which is compared with them below.
\<close>

definition snap_codes :: "int list" where
  "snap_codes = [33, 34, 35, 36, 37, 38, 39, 40]"

definition spec_snap_shape :: "'p decoders \<Rightarrow> int \<Rightarrow> 'p target" where
  "spec_snap_shape dec c =
    (if c = 33 then new_req GetAccountRange (decGetAccountRange dec)
     else if c = 34 then new_req AccountRange (decAccountRange dec)
     else if c = 35 then new_req GetStorageRanges (decGetStorageRanges dec)
     else if c = 36 then new_req StorageRanges (decStorageRanges dec)
     else if c = 37 then new_req GetByteCodes (decGetByteCodes dec)
     else if c = 38 then new_req ByteCodes (decByteCodes dec)
     else if c = 39 then new_req GetTrieNodes (decGetTrieNodes dec)
     else if c = 40 then new_req TrieNodes (decTrieNodes dec)
     else (\<lambda>rawData. None))"

text \<open>
  A script entry that is read within the time limit and whose frame carries a
  code that is not a state-sync code.
\<close>

fun skipped :: "Duration \<Rightarrow> Duration \<times> read_result \<Rightarrow> bool" where
  "skipped timeout (elapsed, Frame code rawData) =
     (elapsed <s timeout \<and> sint code \<notin> set snap_codes)"
| "skipped timeout (elapsed, ReadFailed err) = False"

subsection \<open>Sample decoders\<close>

text \<open>
  An instance of the decoder parameter for running the model on concrete
  frames, with opaque values kept as their encoding. Each decoder accepts the
  one encoding listed and reports every other body as undecodable: the empty
  list \<open>0xC0\<close> for the field-less structs and for an empty hash list, the list
  of an empty string and two empty lists for a typed announcement without
  entries, and the list of 7 and two empty lists for an account range with
  request id 7.
\<close>

definition sample_decoders :: "bytes decoders" where
  "sample_decoders =
    \<lparr> decHello = (\<lambda>_. None),
      decDisconnect = (\<lambda>_. None),
      decDisconnects = (\<lambda>_. None),
      decPing = (\<lambda>raw. if raw = [0xC0] then Some () else None),
      decPong = (\<lambda>raw. if raw = [0xC0] then Some () else None),
      decStatus = (\<lambda>_. None),
      decNewBlockHashes = (\<lambda>_. None),
      decTransactions = (\<lambda>_. None),
      decGetBlockHeaders = (\<lambda>_. None),
      decBlockHeaders = (\<lambda>_. None),
      decGetBlockBodies = (\<lambda>_. None),
      decBlockBodies = (\<lambda>_. None),
      decNewBlock = (\<lambda>_. None),
      decNewPooledTransactionHashes66 = (\<lambda>raw. if raw = [0xC0] then Some [] else None),
      decNewPooledTransactionHashes =
        (\<lambda>raw. if raw = [0xC3, 0x80, 0xC0, 0xC0] then Some ([], [], []) else None),
      decGetPooledTransactions = (\<lambda>_. None),
      decPooledTransactions = (\<lambda>_. None),
      decError = (\<lambda>raw. if raw = [0xC0] then Some () else None),
      decGetAccountRange = (\<lambda>_. None),
      decAccountRange =
        (\<lambda>raw. if raw = [0xC3, 0x07, 0xC0, 0xC0] then Some (7, [0xC0, 0xC0]) else None),
      decGetStorageRanges = (\<lambda>_. None),
      decStorageRanges = (\<lambda>_. None),
      decGetByteCodes = (\<lambda>_. None),
      decByteCodes = (\<lambda>_. None),
      decGetTrieNodes = (\<lambda>_. None),
      decTrieNodes = (\<lambda>_. None) \<rparr>"

section \<open>The crawler (package crawl)\<close>

text \<open>
  Of \<^verbatim>\<open>enode.Node\<close> the crawler calls \<^verbatim>\<open>ID()\<close> and \<^verbatim>\<open>Seq()\<close>. A \<^verbatim>\<open>time.Time\<close> is
  the number of nanoseconds since Go's zero time, which is 0, so that
  \<^verbatim>\<open>IsZero\<close> is equality with 0. A \<^verbatim>\<open>time.Duration\<close> is a signed 64-bit count
  of nanoseconds.
\<close>

type_synonym NodeID = "256 word"
type_synonym Time = int

record Node =
  node_ID :: NodeID
  node_Seq :: uint64

text \<open>
  The values of a \<^verbatim>\<open>p2p.NodeSet\<close>. The struct is declared outside the files at
  hand; its fields are those \<^verbatim>\<open>updateNode\<close> reads and writes. \<^verbatim>\<open>Score\<close> is a Go
  \<^verbatim>\<open>int\<close>, a signed 64-bit word: \<^verbatim>\<open>Score++\<close> wraps and \<^verbatim>\<open>Score /= 2\<close> truncates
  towards zero.
\<close>

record NodeJSON =
  Seq :: uint64
  N :: "Node option"
  Score :: "64 word"
  FirstResponse :: Time
  LastResponse :: Time
  LastCheck :: Time

type_synonym NodeSet = "NodeID \<rightharpoonup> NodeJSON"

text \<open>The zero value, which a Go map lookup gives for an absent key.\<close>

definition zero_NodeJSON :: NodeJSON where
  "zero_NodeJSON =
     \<lparr> Seq = 0, N = None, Score = 0, FirstResponse = 0, LastResponse = 0, LastCheck = 0 \<rparr>"

text \<open>
  The fields of \<^verbatim>\<open>crawler\<close> that \<^verbatim>\<open>updateNode\<close> uses: \<^verbatim>\<open>input\<close>, \<^verbatim>\<open>output\<close> and the
  revalidation interval.
\<close>

record crawler =
  input_set :: NodeSet
  output_set :: NodeSet
  revalidateInterval :: Duration

datatype status = nodeRemoved | nodeSkipRecent | nodeSkipIncompat | nodeAdded | nodeUpdated

text \<open>
  \<^verbatim>\<open>newCrawler\<close> copies the input set into the output set. It leaves
  \<^verbatim>\<open>revalidateInterval\<close> at its zero value, for the caller to set.
\<close>

definition newCrawler :: "NodeSet \<Rightarrow> crawler" where
  "newCrawler inp = \<lparr> input_set = inp, output_set = inp, revalidateInterval = 0 \<rparr>"

text \<open>
  \<^verbatim>\<open>time.Since(t)\<close> at the instant \<open>now\<close>: the difference, saturated to the
  range of a \<^verbatim>\<open>Duration\<close>. \<^verbatim>\<open>truncNow\<close> at the instant \<open>now\<close> rounds down to a
  whole second.
\<close>

definition Since :: "Time \<Rightarrow> Time \<Rightarrow> Duration" where
  "Since now t = word_of_int (max (- (2 ^ 63)) (min (2 ^ 63 - 1) (now - t)))"

definition truncNow :: "Time \<Rightarrow> Time" where
  "truncNow now = now - now mod 1000000000"

text \<open>\<^verbatim>\<open>Score /= 2\<close> on a Go \<^verbatim>\<open>int\<close>.\<close>

definition halve :: "64 word \<Rightarrow> 64 word" where
  "halve s = word_of_int (sint s sdiv 2)"

text \<open>
  What the world answers during one call of \<^verbatim>\<open>updateNode\<close>: the clock at the
  recency check, whether \<^verbatim>\<open>p2p.Dial\<close> succeeds, the network id of the status
  that \<^verbatim>\<open>conn.Peer()\<close> returns (\<open>None\<close> for its error), the clock at \<^verbatim>\<open>truncNow\<close>,
  and the record \<^verbatim>\<open>RequestENR\<close> returns (\<open>None\<close> for its error). The network
  operations a call performs are collected in a trace.
\<close>

record world =
  now_check :: Time
  Dial_ok :: bool
  Peer_NetworkID :: "uint64 option"
  now_stamp :: Time
  RequestENR_result :: "Node option"

datatype io = Dial NodeID | Peer NodeID | RequestENR NodeID

text \<open>
  \<^verbatim>\<open>shouldSkipNode\<close>; the package variable \<^verbatim>\<open>inputCrawlParams.NetworkID\<close> is the
  parameter \<open>NetworkID\<close>.
\<close>

definition shouldSkipNode :: "uint64 \<Rightarrow> world \<Rightarrow> Node \<Rightarrow> bool \<times> io list" where
  "shouldSkipNode NetworkID w n =
     (if NetworkID = 0 then (False, [])
      else if \<not> Dial_ok w then (True, [Dial (node_ID n)])
      else
        (case Peer_NetworkID w of
           None \<Rightarrow> (True, [Dial (node_ID n), Peer (node_ID n)])
         | Some status_NetworkID \<Rightarrow>
             (NetworkID \<noteq> status_NetworkID, [Dial (node_ID n), Peer (node_ID n)])))"

text \<open>The last part of \<^verbatim>\<open>updateNode\<close>, under the write lock: delete or store.\<close>

definition store_node ::
  "crawler \<Rightarrow> Node \<Rightarrow> NodeJSON \<Rightarrow> status \<Rightarrow> status \<times> crawler" where
  "store_node c n node st =
     (if Score node \<le>s 0
      then (nodeRemoved, c\<lparr>output_set := (output_set c)(node_ID n := None)\<rparr>)
      else (st, c\<lparr>output_set := (output_set c)(node_ID n \<mapsto> node)\<rparr>))"

text \<open>The record \<^verbatim>\<open>updateNode\<close> starts from: the stored one, or the zero value.\<close>

definition prior :: "crawler \<Rightarrow> Node \<Rightarrow> NodeJSON" where
  "prior c n = (case output_set c (node_ID n) of None \<Rightarrow> zero_NodeJSON | Some node \<Rightarrow> node)"

definition recent :: "world \<Rightarrow> crawler \<Rightarrow> Node \<Rightarrow> bool" where
  "recent w c n =
     (output_set c (node_ID n) \<noteq> None
      \<and> Since (now_check w) (LastCheck (prior c n)) <s revalidateInterval c)"

definition updateNode :: "uint64 \<Rightarrow> world \<Rightarrow> crawler \<Rightarrow> Node \<Rightarrow> status \<times> crawler \<times> io list" where
  "updateNode NetworkID w c n =
     (if recent w c n then (nodeSkipRecent, c, [])
      else
        (case shouldSkipNode NetworkID w n of
           (True, ios) \<Rightarrow> (nodeSkipIncompat, c, ios)
         | (False, ios) \<Rightarrow>
             (let node = (prior c n)\<lparr>LastCheck := truncNow (now_stamp w)\<rparr>;
                  ios = ios @ [RequestENR (node_ID n)]
              in case RequestENR_result w of
                   None \<Rightarrow>
                     if Score node = 0 then (nodeSkipIncompat, c, ios)
                     else
                       (let (st, c') = store_node c n (node\<lparr>Score := halve (Score node)\<rparr>) nodeUpdated
                        in (st, c', ios))
                 | Some nn \<Rightarrow>
                     (let node = node\<lparr>N := Some nn, Seq := node_Seq nn, Score := Score node + 1\<rparr>;
                          first = (FirstResponse node = 0);
                          node = (if first then node\<lparr>FirstResponse := LastCheck node\<rparr> else node);
                          node = node\<lparr>LastResponse := LastCheck node\<rparr>;
                          (st, c') = store_node c n node (if first then nodeAdded else nodeUpdated)
                      in (st, c', ios)))))"

text \<open>A sequence of calls, each with the answers of the world and the candidate.\<close>

fun updateNodes :: "uint64 \<Rightarrow> crawler \<Rightarrow> (world \<times> Node) list \<Rightarrow> crawler" where
  "updateNodes NetworkID c [] = c"
| "updateNodes NetworkID c ((w, n) # calls) =
     updateNodes NetworkID (fst (snd (updateNode NetworkID w c n))) calls"

definition positive_scores :: "NodeSet \<Rightarrow> bool" where
  "positive_scores s = (\<forall>node \<in> ran s. 0 <s Score node)"

subsection \<open>Sample nodes and worlds\<close>

text \<open>
  Concrete inputs for running \<^verbatim>\<open>updateNode\<close>: a known node with identity 1, a
  fresher record of it, an unknown node with identity 2, the stored record of
  the known node with a given score (first response at second 50, last
  response at second 90, last check at second 100), a crawler that holds that
  record and revalidates after 30 seconds, and a world in which the dial
  succeeds, the peer reports network 137 and the resolver gives the answer
  passed in.
\<close>

definition sample_node :: Node where
  "sample_node = \<lparr> node_ID = 1, node_Seq = 5 \<rparr>"

definition sample_fresher :: Node where
  "sample_fresher = \<lparr> node_ID = 1, node_Seq = 6 \<rparr>"

definition sample_record :: "64 word \<Rightarrow> NodeJSON" where
  "sample_record s =
     \<lparr> Seq = 5, N = Some sample_node, Score = s, FirstResponse = 50000000000,
       LastResponse = 90000000000, LastCheck = 100000000000 \<rparr>"

definition sample_unknown :: Node where
  "sample_unknown = \<lparr> node_ID = 2, node_Seq = 1 \<rparr>"

definition sample_crawler :: "64 word \<Rightarrow> crawler" where
  "sample_crawler s =
     (newCrawler [1 \<mapsto> sample_record s])\<lparr>revalidateInterval := 30000000000\<rparr>"

definition sample_world :: "Time \<Rightarrow> Node option \<Rightarrow> world" where
  "sample_world now answer =
     \<lparr> now_check = now, Dial_ok = True, Peer_NetworkID = Some 137,
       now_stamp = now + 500000000, RequestENR_result = answer \<rparr>"

section \<open>Properties of the message methods\<close>

text \<open>
  C7. Every message variant's \<^verbatim>\<open>Code\<close> method returns the wire code of the
  table of wire codes: hello 0, disconnect and disconnects 1, ping 2, pong 3,
  status 16, new-block-hashes 17, transactions 18, get-block-headers 19,
  block-headers 20, get-block-bodies 21, block-bodies 22, new-block 23, both
  pooled-transaction-hash shapes 24, get-pooled-transactions 25,
  pooled-transactions 26, and the state-sync messages 33 to 40.
\<close>

theorem Code_wire_table:
  "Code (Hello h) = 0x00
   \<and> Code (Disconnect r) = 0x01 \<and> Code (Disconnects rs) = 0x01
   \<and> Code (Ping :: 'p Message) = 0x02 \<and> Code (Pong :: 'p Message) = 0x03
   \<and> Code (Status b) = 16 \<and> Code (NewBlockHashes b) = 17
   \<and> Code (Transactions b) = 18
   \<and> Code (GetBlockHeaders i b) = 19 \<and> Code (BlockHeaders i b) = 20
   \<and> Code (GetBlockBodies i b) = 21 \<and> Code (BlockBodies i b) = 22
   \<and> Code (NewBlock b) = 23
   \<and> Code (NewPooledTransactionHashes66 hs :: 'p Message) = 24
   \<and> Code (NewPooledTransactionHashes ts ss hs :: 'p Message) = 24
   \<and> Code (GetPooledTransactions i b) = 25 \<and> Code (PooledTransactions i b) = 26
   \<and> Code (GetAccountRange i b) = 33 \<and> Code (AccountRange i b) = 34
   \<and> Code (GetStorageRanges i b) = 35 \<and> Code (StorageRanges i b) = 36
   \<and> Code (GetByteCodes i b) = 37 \<and> Code (ByteCodes i b) = 38
   \<and> Code (GetTrieNodes i b) = 39 \<and> Code (TrieNodes i b) = 40"
  by simp

text \<open>
  C6. The variants without request/response correlation are expected to
  return request id 0. Ten of the eleven do; \<^verbatim>\<open>Transactions.ReqID\<close> returns
  18, the value of its \<^verbatim>\<open>Code\<close>, for every transactions message.
\<close>

theorem Transactions_ReqID_not_zero:
  "ReqID (Transactions b) = 18 \<and> ReqID (Transactions b) \<noteq> 0
   \<and> ReqID (Hello h) = 0 \<and> ReqID (Disconnect r) = 0 \<and> ReqID (Disconnects rs) = 0
   \<and> ReqID (Ping :: 'p Message) = 0 \<and> ReqID (Pong :: 'p Message) = 0
   \<and> ReqID (Status b) = 0 \<and> ReqID (NewBlockHashes b) = 0 \<and> ReqID (NewBlock b) = 0
   \<and> ReqID (NewPooledTransactionHashes66 hs :: 'p Message) = 0
   \<and> ReqID (NewPooledTransactionHashes ts ss hs :: 'p Message) = 0"
  by simp

section \<open>Properties of \<open>Read\<close>\<close>

text \<open>What the \<^verbatim>\<open>switch\<close> does at each code it has a case for, and at every other code.\<close>

lemma Read_switch_at:
  "sint code = 0x00 \<Longrightarrow> Read_switch dec code raw = Inr (Some (new_msg Hello (decHello dec)))"
  "sint code = 0x02 \<Longrightarrow> Read_switch dec code raw = Inr (Some (new_msg (\<lambda>_. Ping) (decPing dec)))"
  "sint code = 0x03 \<Longrightarrow> Read_switch dec code raw = Inr (Some (new_msg (\<lambda>_. Pong) (decPong dec)))"
  "sint code = 0x01 \<Longrightarrow> Read_switch dec code raw =
       (case new_msg Disconnects (decDisconnects dec) raw of
          None \<Rightarrow> Inr (Some (new_msg Disconnect (decDisconnect dec)))
        | Some m \<Rightarrow> Inr (Some (new_msg Disconnects (decDisconnects dec))))"
  "sint code = 16 \<Longrightarrow> Read_switch dec code raw = Inr (Some (new_msg Status (decStatus dec)))"
  "sint code = 19 \<Longrightarrow> Read_switch dec code raw = Inl (decode_or_error (new_req GetBlockHeaders (decGetBlockHeaders dec)) raw)"
  "sint code = 20 \<Longrightarrow> Read_switch dec code raw = Inl (decode_or_error (new_req BlockHeaders (decBlockHeaders dec)) raw)"
  "sint code = 21 \<Longrightarrow> Read_switch dec code raw = Inl (decode_or_error (new_req GetBlockBodies (decGetBlockBodies dec)) raw)"
  "sint code = 22 \<Longrightarrow> Read_switch dec code raw = Inl (decode_or_error (new_req BlockBodies (decBlockBodies dec)) raw)"
  "sint code = 23 \<Longrightarrow> Read_switch dec code raw = Inr (Some (new_msg NewBlock (decNewBlock dec)))"
  "sint code = 17 \<Longrightarrow> Read_switch dec code raw = Inr (Some (new_msg NewBlockHashes (decNewBlockHashes dec)))"
  "sint code = 18 \<Longrightarrow> Read_switch dec code raw = Inr (Some (new_msg Transactions (decTransactions dec)))"
  "sint code = 24 \<Longrightarrow> Read_switch dec code raw =
       (case decNewPooledTransactionHashes dec raw of
          Some (ts, ss, hs) \<Rightarrow> Inl (NewPooledTransactionHashes ts ss hs)
        | None \<Rightarrow> Inr (Some (new_msg NewPooledTransactionHashes66 (decNewPooledTransactionHashes66 dec))))"
  "sint code = 25 \<Longrightarrow> Read_switch dec code raw = Inl (decode_or_error (new_req GetPooledTransactions (decGetPooledTransactions dec)) raw)"
  "sint code = 26 \<Longrightarrow> Read_switch dec code raw = Inl (decode_or_error (new_req PooledTransactions (decPooledTransactions dec)) raw)"
  by (simp_all add: Read_switch_def)

lemma Read_switch_default:
  "sint code \<notin> set Read_codes \<Longrightarrow>
     Read_switch dec code raw = Inr (Some (new_msg (\<lambda>_. Error (InvalidCode code)) (decError dec)))"
  by (simp add: Read_switch_def Read_codes_def)

lemma Read_unrecognized:
  "sint code \<notin> set Read_codes \<Longrightarrow>
     Read dec (Frame code raw) =
       (case decError dec raw of None \<Rightarrow> Error CouldNotDecode | Some u \<Rightarrow> Error (InvalidCode code))"
  by (simp add: Read_def Read_switch_default new_msg_def split: option.splits)

lemma Read_at:
  assumes "sint code = k"
  shows "k = 0x00 \<Longrightarrow> Read dec (Frame code raw) = decode_or_error (new_msg Hello (decHello dec)) raw"
    and "k = 0x02 \<Longrightarrow> Read dec (Frame code raw) = decode_or_error (new_msg (\<lambda>_. Ping) (decPing dec)) raw"
    and "k = 0x03 \<Longrightarrow> Read dec (Frame code raw) = decode_or_error (new_msg (\<lambda>_. Pong) (decPong dec)) raw"
    and "k = 0x01 \<Longrightarrow> Read dec (Frame code raw) =
          (case decDisconnects dec raw of
             Some rs \<Rightarrow> Disconnects rs
           | None \<Rightarrow> decode_or_error (new_msg Disconnect (decDisconnect dec)) raw)"
    and "k = 16 \<Longrightarrow> Read dec (Frame code raw) = decode_or_error (new_msg Status (decStatus dec)) raw"
    and "k = 19 \<Longrightarrow> Read dec (Frame code raw) = decode_or_error (new_req GetBlockHeaders (decGetBlockHeaders dec)) raw"
    and "k = 20 \<Longrightarrow> Read dec (Frame code raw) = decode_or_error (new_req BlockHeaders (decBlockHeaders dec)) raw"
    and "k = 21 \<Longrightarrow> Read dec (Frame code raw) = decode_or_error (new_req GetBlockBodies (decGetBlockBodies dec)) raw"
    and "k = 22 \<Longrightarrow> Read dec (Frame code raw) = decode_or_error (new_req BlockBodies (decBlockBodies dec)) raw"
    and "k = 23 \<Longrightarrow> Read dec (Frame code raw) = decode_or_error (new_msg NewBlock (decNewBlock dec)) raw"
    and "k = 17 \<Longrightarrow> Read dec (Frame code raw) = decode_or_error (new_msg NewBlockHashes (decNewBlockHashes dec)) raw"
    and "k = 18 \<Longrightarrow> Read dec (Frame code raw) = decode_or_error (new_msg Transactions (decTransactions dec)) raw"
    and "k = 24 \<Longrightarrow> Read dec (Frame code raw) =
          (case decNewPooledTransactionHashes dec raw of
             Some (ts, ss, hs) \<Rightarrow> NewPooledTransactionHashes ts ss hs
           | None \<Rightarrow> decode_or_error (new_msg NewPooledTransactionHashes66 (decNewPooledTransactionHashes66 dec)) raw)"
    and "k = 25 \<Longrightarrow> Read dec (Frame code raw) = decode_or_error (new_req GetPooledTransactions (decGetPooledTransactions dec)) raw"
    and "k = 26 \<Longrightarrow> Read dec (Frame code raw) = decode_or_error (new_req PooledTransactions (decPooledTransactions dec)) raw"
  using assms
  by (simp_all add: Read_def Read_switch_at decode_or_error_def new_msg_def split: option.splits)

lemma Read_recognized:
  assumes "sint code \<in> set Read_codes"
  shows "Read dec (Frame code raw) =
     (case first_decoded (spec_candidates dec (sint code)) raw of
        Some m \<Rightarrow> m
      | None \<Rightarrow> Error CouldNotDecode)"
proof -
  from assms consider "sint code = 0x00" | "sint code = 0x02" | "sint code = 0x03" | "sint code = 0x01"
    | "sint code = 16" | "sint code = 19" | "sint code = 20" | "sint code = 21" | "sint code = 22"
    | "sint code = 23" | "sint code = 17" | "sint code = 18" | "sint code = 24" | "sint code = 25"
    | "sint code = 26"
    by (auto simp: Read_codes_def)
  then show ?thesis
    by cases
      (simp_all add: Read_at [OF refl] spec_candidates_def decode_or_error_def new_msg_def
        split: option.splits)
qed

lemma Read_Code:
  "(\<exists>e. Read dec (Frame code raw) = Error e) \<or> Code (Read dec (Frame code raw)) = sint code"
proof (cases "sint code \<in> set Read_codes")
  case False
  then show ?thesis by (simp add: Read_unrecognized split: option.splits)
next
  case True
  then consider "sint code = 0x00" | "sint code = 0x02" | "sint code = 0x03" | "sint code = 0x01"
    | "sint code = 16" | "sint code = 19" | "sint code = 20" | "sint code = 21" | "sint code = 22"
    | "sint code = 23" | "sint code = 17" | "sint code = 18" | "sint code = 24" | "sint code = 25"
    | "sint code = 26"
    by (auto simp: Read_codes_def)
  then show ?thesis
    by cases
      (auto simp add: Read_at [OF refl] decode_or_error_def new_msg_def new_req_def
        split: option.splits)
qed


text \<open>
  C5. \<^verbatim>\<open>Conn.Read\<close> is a total function into messages: the model has no
  branch without a result. A frame with a code \<^verbatim>\<open>Read\<close> has a case for, none of
  whose shapes decodes the body, yields the error message "could not rlp
  decode"; a frame with any other code yields an error message ("invalid
  message code", or "could not rlp decode" when the body does not decode into
  the error value itself); a failed read yields an error message. Every
  result is an error message or has the frame's code as its \<^verbatim>\<open>Code\<close>, and an
  error message has \<^verbatim>\<open>Code\<close> -1 and \<^verbatim>\<open>ReqID\<close> 0.
\<close>

theorem Read_error_message:
  "(sint code \<in> set Read_codes \<and> first_decoded (spec_candidates dec (sint code)) rawData = None
      \<longrightarrow> Read dec (Frame code rawData) = Error CouldNotDecode)
   \<and> (sint code \<notin> set Read_codes
      \<longrightarrow> Read dec (Frame code rawData) = Error (InvalidCode code)
        \<or> Read dec (Frame code rawData) = Error CouldNotDecode)
   \<and> Read dec (ReadFailed err) = Error (CouldNotRead err)
   \<and> ((\<exists>e. Read dec (Frame code rawData) = Error e)
        \<or> Code (Read dec (Frame code rawData)) = sint code)
   \<and> Code (Error e :: 'p Message) = - 1 \<and> ReqID (Error e :: 'p Message) = 0"
proof -
  have "Read dec (ReadFailed err) = Error (CouldNotRead err)"
    by (simp add: Read_def)
  moreover have "sint code \<notin> set Read_codes
      \<longrightarrow> Read dec (Frame code rawData) = Error (InvalidCode code)
        \<or> Read dec (Frame code rawData) = Error CouldNotDecode"
    by (simp add: Read_unrecognized split: option.splits)
  moreover have "sint code \<in> set Read_codes
      \<and> first_decoded (spec_candidates dec (sint code)) rawData = None
      \<longrightarrow> Read dec (Frame code rawData) = Error CouldNotDecode"
    by (simp add: Read_recognized)
  ultimately show ?thesis
    using Read_Code [of dec code rawData] by simp
qed

text \<open>
  For C5, at the sample decoders: the empty body under the status code 16
  does not decode, and code 99 has no case.
\<close>

theorem Read_error_message_witness:
  "sint (16 :: uint64) \<in> set Read_codes
   \<and> first_decoded (spec_candidates sample_decoders (sint (16 :: uint64))) [] = None
   \<and> Read sample_decoders (Frame 16 []) = Error CouldNotDecode
   \<and> sint (99 :: uint64) \<notin> set Read_codes
   \<and> Read sample_decoders (Frame 99 [0xC0]) = Error (InvalidCode 99)
   \<and> Code (Read sample_decoders (Frame 99 [0xC0])) = - 1
   \<and> ReqID (Read sample_decoders (Frame 99 [0xC0])) = 0"
proof -
  have a: "sint (16 :: uint64) \<in> set Read_codes"
    by (simp add: Read_codes_def)
  have b: "first_decoded (spec_candidates sample_decoders (sint (16 :: uint64))) [] = None"
    by (simp add: spec_candidates_def sample_decoders_def new_msg_def)
  have c: "sint (99 :: uint64) \<notin> set Read_codes"
    by (simp add: Read_codes_def)
  have d: "Read sample_decoders (Frame 99 [0xC0]) \<noteq> Error CouldNotDecode"
    by (simp add: Read_def Read_switch_def sample_decoders_def new_msg_def)
  from a b c d show ?thesis
    using Read_error_message [of 16 sample_decoders "[]"]
      Read_error_message [of 99 sample_decoders "[0xC0]"]
    by simp
qed

text \<open>
  C8. For a frame with code 24 the typed three-field shape is decoded first:
  when it decodes, the typed variant is the result, whatever the legacy
  decoder would do. Only when it fails is the legacy hash list decoded, so a
  legacy body (one the typed decoder rejects and the legacy decoder accepts)
  yields the legacy variant; when both fail the result is an error message.
\<close>

theorem Read_typed_hashes_first:
  "sint code = 24 \<Longrightarrow>
     (decNewPooledTransactionHashes dec rawData = Some (ts, ss, hs)
        \<longrightarrow> Read dec (Frame code rawData) = NewPooledTransactionHashes ts ss hs)
     \<and> (decNewPooledTransactionHashes dec rawData = None
          \<and> decNewPooledTransactionHashes66 dec rawData = Some hs66
        \<longrightarrow> Read dec (Frame code rawData) = NewPooledTransactionHashes66 hs66)
     \<and> (decNewPooledTransactionHashes dec rawData = None
          \<and> decNewPooledTransactionHashes66 dec rawData = None
        \<longrightarrow> Read dec (Frame code rawData) = Error CouldNotDecode)"
  by (simp add: Read_at(13) [OF refl] decode_or_error_def new_msg_def)

text \<open>
  For C8, at the sample decoders: the typed body without entries and the empty
  legacy hash list, both under code 24.
\<close>

theorem Read_typed_hashes_first_witness:
  "sint (24 :: uint64) = 24
   \<and> decNewPooledTransactionHashes sample_decoders [0xC3, 0x80, 0xC0, 0xC0] = Some ([], [], [])
   \<and> Read sample_decoders (Frame 24 [0xC3, 0x80, 0xC0, 0xC0]) = NewPooledTransactionHashes [] [] []
   \<and> decNewPooledTransactionHashes sample_decoders [0xC0] = None
   \<and> decNewPooledTransactionHashes66 sample_decoders [0xC0] = Some []
   \<and> Read sample_decoders (Frame 24 [0xC0]) = NewPooledTransactionHashes66 []"
proof -
  have a: "sint (24 :: uint64) = 24" by simp
  have b: "decNewPooledTransactionHashes sample_decoders [0xC3, 0x80, 0xC0, 0xC0] = Some ([], [], [])"
    by (simp add: sample_decoders_def)
  have c: "decNewPooledTransactionHashes sample_decoders [0xC0] = None"
    by (simp add: sample_decoders_def)
  have d: "decNewPooledTransactionHashes66 sample_decoders [0xC0] = Some []"
    by (simp add: sample_decoders_def)
  show ?thesis
    using Read_typed_hashes_first [OF a, of sample_decoders "[0xC3, 0x80, 0xC0, 0xC0]" "[]" "[]" "[]" "[]"]
      Read_typed_hashes_first [OF a, of sample_decoders "[0xC0]" "[]" "[]" "[]" "[]"]
      a b c d
    by simp
qed

section \<open>Properties of \<open>ReadSnap\<close>\<close>

text \<open>
  The \<^verbatim>\<open>switch\<close> of \<^verbatim>\<open>ReadSnap\<close> has a case for exactly the state-sync codes 33
  to 40, and allocates for each the shape the table of wire codes gives it. A
  message decoded into that shape has the frame's code as its \<^verbatim>\<open>Code\<close>.
\<close>

lemma ReadSnap_switch_codes:
  "ReadSnap_switch dec code =
     (if sint code \<in> set snap_codes then Some (spec_snap_shape dec (sint code)) else None)"
  by (simp add: ReadSnap_switch_def spec_snap_shape_def snap_codes_def Let_def)

lemma spec_snap_shape_Code:
  assumes "sint code \<in> set snap_codes"
    and "spec_snap_shape dec (sint code) rawData = Some m"
  shows "Code m = sint code"
proof -
  from assms(1) consider "sint code = 33" | "sint code = 34" | "sint code = 35"
    | "sint code = 36" | "sint code = 37" | "sint code = 38" | "sint code = 39"
    | "sint code = 40"
    by (auto simp: snap_codes_def)
  then show ?thesis
    using assms(2)
    by cases (auto simp: spec_snap_shape_def new_req_def)
qed

lemma snap_codes_not_Read_codes:
  "sint code \<in> set snap_codes \<Longrightarrow> sint code \<notin> set Read_codes"
  by (auto simp: snap_codes_def Read_codes_def)

text \<open>Skipped frames at the head of the script leave the loop where it was.\<close>

lemma ReadSnap_loop_skips:
  assumes "respId \<noteq> rid" and "list_all (skipped timeout) pre"
  shows "ReadSnap_loop dec timeout rid respId (pre @ script)
           = ReadSnap_loop dec timeout rid respId script"
  using assms(2)
proof (induction pre)
  case Nil
  then show ?case by simp
next
  case (Cons e pre)
  obtain elapsed r where e: "e = (elapsed, r)" by (cases e)
  with Cons.prems have "skipped timeout (elapsed, r)" by simp
  then obtain code raw where "r = Frame code raw" "elapsed <s timeout"
      "sint code \<notin> set snap_codes"
    by (cases r) simp_all
  with Cons e assms(1) show ?case by (simp add: ReadSnap_switch_codes)
qed

lemma ReadSnap_skips:
  "list_all (skipped timeout) pre \<Longrightarrow>
     ReadSnap dec timeout rid (pre @ script) = ReadSnap_loop dec timeout rid (rid + 1) script"
  by (simp add: ReadSnap_def ReadSnap_loop_skips)

lemma sample_skips_status:
  "list_all (skipped 1000) [(0, Frame 16 [])]"
  by (simp add: snap_codes_def word_sless_alt)

lemma sample_snap_codes:
  "sint (34 :: uint64) \<in> set snap_codes" "sint (39 :: uint64) \<in> set snap_codes"
  by (simp_all add: snap_codes_def)

lemma sample_account_range:
  "spec_snap_shape sample_decoders (sint (34 :: uint64)) [0xC3, 0x07, 0xC0, 0xC0]
     = Some (AccountRange 7 [0xC0, 0xC0])"
  "spec_snap_shape sample_decoders (sint (34 :: uint64)) [0xC3] = None"
  "spec_snap_shape sample_decoders (sint (39 :: uint64)) [0xC3] = None"
  by (simp_all add: spec_snap_shape_def new_req_def sample_decoders_def)

text \<open>
  C9, as the code has it. While the time limit has not run out, \<^verbatim>\<open>ReadSnap\<close>
  skips every frame whose code is not one of the state-sync codes 33 to 40
  and stops at the first frame whose code is one of them: when its body
  decodes into the shape of that code, that message is returned, with the
  frame's code as its \<^verbatim>\<open>Code\<close> and whatever the request id asked for; when its
  body does not decode, the decode error is returned. A failed read returns
  the read error. When the time limit is found run out at a loop check, the
  result is the timeout error. In each case the call returns.
\<close>

theorem ReadSnap_stops_at_first_snap_frame:
  assumes "list_all (skipped timeout) pre"
  shows "(elapsed <s timeout \<and> sint code \<in> set snap_codes
            \<and> spec_snap_shape dec (sint code) rawData = Some m
            \<longrightarrow> ReadSnap dec timeout rid (pre @ (elapsed, Frame code rawData) # rest) = Some (Inr m)
              \<and> Code m = sint code)
       \<and> (elapsed <s timeout \<and> sint code \<in> set snap_codes
            \<and> spec_snap_shape dec (sint code) rawData = None
            \<longrightarrow> ReadSnap dec timeout rid (pre @ (elapsed, Frame code rawData) # rest)
                  = Some (Inl CouldNotDecode))
       \<and> (elapsed <s timeout
            \<longrightarrow> ReadSnap dec timeout rid (pre @ (elapsed, ReadFailed err) # rest)
                  = Some (Inl (CouldNotRead err)))
       \<and> (\<not> elapsed <s timeout
            \<longrightarrow> ReadSnap dec timeout rid (pre @ (elapsed, r) # rest) = Some (Inl TimedOut))"
  using assms spec_snap_shape_Code [of code dec rawData m]
  by (simp add: ReadSnap_skips ReadSnap_switch_codes)

text \<open>
  For C9: after a skipped status frame, an account range with request id 7 is
  returned to a caller that asked for request id 9; with the time limit
  reached at the second check, the timeout error is returned.
\<close>

theorem ReadSnap_stops_at_first_snap_frame_witness:
  "list_all (skipped 1000) [(0, Frame 16 [])]
   \<and> (1 :: Duration) <s 1000
   \<and> sint (34 :: uint64) \<in> set snap_codes
   \<and> spec_snap_shape sample_decoders (sint (34 :: uint64)) [0xC3, 0x07, 0xC0, 0xC0]
       = Some (AccountRange 7 [0xC0, 0xC0])
   \<and> ReadSnap sample_decoders 1000 9
        [(0, Frame 16 []), (1, Frame 34 [0xC3, 0x07, 0xC0, 0xC0]), (2, Frame 34 [])]
       = Some (Inr (AccountRange 7 [0xC0, 0xC0]))
   \<and> ReqID (AccountRange 7 [0xC0, 0xC0 :: 8 word]) \<noteq> 9
   \<and> \<not> (1000 :: Duration) <s 1000
   \<and> ReadSnap sample_decoders 1000 9
        [(0, Frame 16 []), (1000, Frame 34 [0xC3, 0x07, 0xC0, 0xC0])]
       = Some (Inl TimedOut)"
proof -
  have a: "(1 :: Duration) <s 1000" and b: "\<not> (1000 :: Duration) <s 1000"
    by (simp_all add: word_sless_alt)
  show ?thesis
    using ReadSnap_stops_at_first_snap_frame [OF sample_skips_status,
        where elapsed = 1 and code = 34 and rawData = "[0xC3, 0x07, 0xC0, 0xC0]"
          and dec = sample_decoders
          and m = "AccountRange 7 [0xC0, 0xC0]" and rid = 9 and rest = "[(2, Frame 34 [])]"]
      ReadSnap_stops_at_first_snap_frame [OF sample_skips_status,
        where elapsed = 1000 and r = "Frame 34 [0xC3, 0x07, 0xC0, 0xC0]" and rid = 9
          and dec = sample_decoders and rest = "[]"]
      a b sample_snap_codes(1) sample_account_range(1) sample_skips_status
    by simp
qed

text \<open>
  C10. A frame whose code is one of the state-sync codes 33 to 40 and whose
  body does not decode into the shape of that code, reached within the time
  limit after skipped frames only, makes \<^verbatim>\<open>ReadSnap\<close> return the decode error
  at once, whatever frames follow: the frame is not skipped, and the result
  is Go's \<^verbatim>\<open>(nil, err)\<close>, not a message. \<^verbatim>\<open>Conn.Read\<close> turns the same frame into
  an error message.
\<close>

theorem ReadSnap_decode_error_returned:
  assumes "list_all (skipped timeout) pre"
    and "elapsed <s timeout"
    and "sint code \<in> set snap_codes"
    and "spec_snap_shape dec (sint code) rawData = None"
  shows "ReadSnap dec timeout rid (pre @ (elapsed, Frame code rawData) # rest)
           = Some (Inl CouldNotDecode)
       \<and> \<not> skipped timeout (elapsed, Frame code rawData)
       \<and> (\<exists>e. Read dec (Frame code rawData) = Error e)"
proof -
  have "ReadSnap dec timeout rid (pre @ (elapsed, Frame code rawData) # rest)
           = Some (Inl CouldNotDecode)"
    using assms by (simp add: ReadSnap_skips ReadSnap_switch_codes)
  moreover have "sint code \<notin> set Read_codes"
    using assms(3) by (rule snap_codes_not_Read_codes)
  ultimately show ?thesis
    using assms(3) by (auto simp: Read_unrecognized split: option.splits)
qed

text \<open>
  For C10: a truncated account range, and a truncated get-trie-nodes request,
  each after a skipped status frame and followed by a well-formed account
  range that is never read.
\<close>

theorem ReadSnap_decode_error_returned_witness:
  "list_all (skipped 1000) [(0, Frame 16 [])]
   \<and> (1 :: Duration) <s 1000
   \<and> sint (34 :: uint64) \<in> set snap_codes
   \<and> spec_snap_shape sample_decoders (sint (34 :: uint64)) [0xC3] = None
   \<and> ReadSnap sample_decoders 1000 9
        [(0, Frame 16 []), (1, Frame 34 [0xC3]), (2, Frame 34 [0xC3, 0x07, 0xC0, 0xC0])]
       = Some (Inl CouldNotDecode)
   \<and> sint (39 :: uint64) \<in> set snap_codes
   \<and> spec_snap_shape sample_decoders (sint (39 :: uint64)) [0xC3] = None
   \<and> ReadSnap sample_decoders 1000 9
        [(0, Frame 16 []), (1, Frame 39 [0xC3]), (2, Frame 34 [0xC3, 0x07, 0xC0, 0xC0])]
       = Some (Inl CouldNotDecode)"
proof -
  have a: "(1 :: Duration) <s 1000"
    by (simp add: word_sless_alt)
  show ?thesis
    using ReadSnap_decode_error_returned
        [OF sample_skips_status a sample_snap_codes(1) sample_account_range(2),
          of 9 "[(2, Frame 34 [0xC3, 0x07, 0xC0, 0xC0])]"]
      ReadSnap_decode_error_returned
        [OF sample_skips_status a sample_snap_codes(2) sample_account_range(3),
          of 9 "[(2, Frame 34 [0xC3, 0x07, 0xC0, 0xC0])]"]
      a sample_snap_codes sample_account_range(2,3) sample_skips_status
    by simp
qed

text \<open>
  C9 as stated fails: a state-sync frame whose body does not decode ends the
  call with a decode error, although a decodable state-sync frame follows
  within the time limit, and although the time limit has not run out.
\<close>

theorem ReadSnap_later_frame_counterexample:
  "ReadSnap sample_decoders 1000 9
       [(0, Frame 34 [0xC3]), (1, Frame 34 [0xC3, 0x07, 0xC0, 0xC0])] = Some (Inl CouldNotDecode)
   \<and> ReadSnap sample_decoders 1000 9 [(1, Frame 34 [0xC3, 0x07, 0xC0, 0xC0])]
        = Some (Inr (AccountRange 7 [0xC0, 0xC0]))"
  by (simp add: ReadSnap_def ReadSnap_switch_def sample_decoders_def new_req_def word_sless_alt)

section \<open>Properties of \<open>updateNode\<close>\<close>

text \<open>Signed readings of \<^verbatim>\<open>Score /= 2\<close> and \<^verbatim>\<open>Score++\<close> where they do not wrap.\<close>

lemma sint_of_int_64:
  "- (2 ^ 63) \<le> k \<Longrightarrow> k < 2 ^ 63 \<Longrightarrow> sint (word_of_int k :: 64 word) = k"
  by (simp add: signed_of_int signed_take_bit_int_eq_self)

lemma sint_halve: "0 <s s \<Longrightarrow> sint (halve s) = sint s div 2"
proof -
  assume "0 <s s"
  then have pos: "0 < sint s" by (simp add: word_sless_alt)
  have up: "sint s < 2 ^ 63" using sint_lt [of s] by simp
  from pos have "sint s sdiv 2 = sint s div 2"
    by (simp add: signed_divide_int_def)
  moreover from pos up have "- (2 ^ 63) \<le> sint s div 2" "sint s div 2 < 2 ^ 63"
    by linarith+
  ultimately show ?thesis
    by (simp add: halve_def sint_of_int_64)
qed

lemma sint_succ: "0 <s s + 1 \<Longrightarrow> sint (s + 1 :: 64 word) = sint s + 1"
proof -
  assume a: "0 <s s + 1"
  have lo: "- (2 ^ 63) \<le> sint s" using sint_ge [of s] by simp
  have up: "sint s < 2 ^ 63" using sint_lt [of s] by simp
  have eq: "sint (s + 1) = signed_take_bit 63 (sint s + 1)"
    using sint_word_add [of s 1] by simp
  show ?thesis
  proof (cases "sint s + 1 < 2 ^ 63")
    case True
    with lo eq show ?thesis
      by (simp add: signed_take_bit_int_eq_self)
  next
    case False
    with up have "sint s + 1 = 2 ^ 63" by simp
    with eq have "sint (s + 1) = signed_take_bit 63 (2 ^ 63 :: int)" by simp
    also have "\<dots> = - (2 ^ 63)" by (simp add: signed_take_bit_eq_take_bit_shift)
    finally show ?thesis using a by (simp add: word_sless_alt)
  qed
qed

text \<open>
  C3. A candidate that is in the output set and whose last check lies less
  than the revalidation interval before the current time makes \<^verbatim>\<open>updateNode\<close>
  return skip-recent, with an empty trace of network operations (no dial, no
  peer exchange, no resolver query) and the crawler, so also its output set,
  unchanged.
\<close>

theorem updateNode_skip_recent:
  assumes "output_set c (node_ID n) = Some node"
    and "Since (now_check w) (LastCheck node) <s revalidateInterval c"
  shows "updateNode NetworkID w c n = (nodeSkipRecent, c, [])"
  using assms by (simp add: updateNode_def recent_def prior_def)

lemma sample_recent:
  "Since (now_check (sample_world 110000000000 None)) (LastCheck (sample_record 3))
     <s revalidateInterval (sample_crawler 3)"
  by (simp add: Since_def sample_world_def sample_record_def sample_crawler_def word_sless_alt)

text \<open>
  For C3: a node of score 3 checked 10 seconds ago, with a revalidation
  interval of 30 seconds.
\<close>

theorem updateNode_skip_recent_witness:
  "output_set (sample_crawler 3) (node_ID sample_node) = Some (sample_record 3)
   \<and> Since (now_check (sample_world 110000000000 None)) (LastCheck (sample_record 3))
       <s revalidateInterval (sample_crawler 3)
   \<and> updateNode 137 (sample_world 110000000000 None) (sample_crawler 3) sample_node
       = (nodeSkipRecent, sample_crawler 3, [])"
proof -
  have a: "output_set (sample_crawler 3) (node_ID sample_node) = Some (sample_record 3)"
    by (simp add: sample_crawler_def newCrawler_def sample_node_def)
  show ?thesis
    using updateNode_skip_recent [OF a sample_recent, of 137] a sample_recent by simp
qed

text \<open>
  C1, as the code has it. For a candidate that passed the recency and
  compatibility checks and whose resolver query succeeds, provided the
  incremented score is positive (the prior score is from 0 to 2^63 - 2),
  \<^verbatim>\<open>updateNode\<close> stores a record whose score is the prior score plus 1, whose
  record and sequence number are those of the fresher record, and whose
  last-response and last-check times are the check time truncated to the
  second. The outcome is added, with the first-response time set to the same
  check time, when the prior first-response time was unset, and updated
  otherwise. When the incremented score is not positive, the entry is deleted
  and the outcome is removed.
\<close>

theorem updateNode_resolver_success:
  assumes "\<not> recent w c n"
    and "shouldSkipNode NetworkID w n = (False, ios)"
    and "RequestENR_result w = Some nn"
  shows "(0 <s Score (prior c n) + 1 \<longrightarrow>
      updateNode NetworkID w c n =
        (if FirstResponse (prior c n) = 0 then nodeAdded else nodeUpdated,
         c\<lparr>output_set := (output_set c)(node_ID n \<mapsto>
            \<lparr> Seq = node_Seq nn, N = Some nn, Score = Score (prior c n) + 1,
              FirstResponse = (if FirstResponse (prior c n) = 0 then truncNow (now_stamp w)
                               else FirstResponse (prior c n)),
              LastResponse = truncNow (now_stamp w),
              LastCheck = truncNow (now_stamp w) \<rparr>)\<rparr>,
         ios @ [RequestENR (node_ID n)])
      \<and> sint (Score (prior c n) + 1) = sint (Score (prior c n)) + 1)
    \<and> (Score (prior c n) + 1 \<le>s 0 \<longrightarrow>
      updateNode NetworkID w c n =
        (nodeRemoved, c\<lparr>output_set := (output_set c)(node_ID n := None)\<rparr>,
         ios @ [RequestENR (node_ID n)]))"
proof -
  obtain sq nd sc fr lr lc where p: "prior c n =
      \<lparr> Seq = sq, N = nd, Score = sc, FirstResponse = fr, LastResponse = lr, LastCheck = lc \<rparr>"
    by (cases "prior c n") simp
  have pos: "(0 <s sc + 1) = (\<not> sc + 1 \<le>s 0)"
    by (simp add: signed.not_le)
  have suc: "\<not> sc + 1 \<le>s 0 \<Longrightarrow> sint (sc + 1) = sint sc + 1"
    using sint_succ [of sc] by (simp add: pos)
  from assms show ?thesis
    by (simp add: updateNode_def store_node_def Let_def p pos suc)
qed

text \<open>
  C2. For a candidate that passed the recency and compatibility checks and
  whose resolver query fails: with prior score 0 the outcome is
  skip-incompatible and the crawler, so also its output set, is unchanged;
  with a prior score above 0 the new score is the prior score divided by 2,
  rounded down, and when that is 0 or less the entry is deleted and the
  outcome is removed, and otherwise the record with the halved score and the
  new check time is stored and the outcome is updated, as set before the
  query.
\<close>

theorem updateNode_resolver_failure:
  assumes "\<not> recent w c n"
    and "shouldSkipNode NetworkID w n = (False, ios)"
    and "RequestENR_result w = None"
  shows "(Score (prior c n) = 0 \<longrightarrow>
            updateNode NetworkID w c n = (nodeSkipIncompat, c, ios @ [RequestENR (node_ID n)]))
       \<and> (0 <s Score (prior c n) \<longrightarrow>
            sint (halve (Score (prior c n))) = sint (Score (prior c n)) div 2
            \<and> (halve (Score (prior c n)) \<le>s 0 \<longrightarrow>
                 updateNode NetworkID w c n =
                   (nodeRemoved, c\<lparr>output_set := (output_set c)(node_ID n := None)\<rparr>,
                    ios @ [RequestENR (node_ID n)]))
            \<and> (\<not> halve (Score (prior c n)) \<le>s 0 \<longrightarrow>
                 updateNode NetworkID w c n =
                   (nodeUpdated,
                    c\<lparr>output_set := (output_set c)(node_ID n \<mapsto>
                       \<lparr> Seq = Seq (prior c n), N = N (prior c n),
                         Score = halve (Score (prior c n)),
                         FirstResponse = FirstResponse (prior c n),
                         LastResponse = LastResponse (prior c n),
                         LastCheck = truncNow (now_stamp w) \<rparr>)\<rparr>,
                    ios @ [RequestENR (node_ID n)])))"
proof -
  obtain sq nd sc fr lr lc where p: "prior c n =
      \<lparr> Seq = sq, N = nd, Score = sc, FirstResponse = fr, LastResponse = lr, LastCheck = lc \<rparr>"
    by (cases "prior c n") simp
  have z: "0 <s sc \<Longrightarrow> sc \<noteq> 0"
    by auto
  have h: "0 <s sc \<Longrightarrow> sint (halve sc) = sint sc div 2"
    by (rule sint_halve)
  from assms show ?thesis
    by (simp add: updateNode_def store_node_def Let_def p z h)
qed


text \<open>The sample world and crawler, evaluated.\<close>

lemma sample_not_recent:
  "\<not> recent (sample_world 200000000000 a) (sample_crawler s) sample_node"
  by (simp add: recent_def Since_def sample_world_def sample_crawler_def newCrawler_def
      sample_node_def sample_record_def prior_def word_sless_alt)

lemma sample_unknown_not_recent:
  "\<not> recent (sample_world 200000000000 a) (sample_crawler s) sample_unknown"
  by (simp add: recent_def sample_crawler_def newCrawler_def sample_unknown_def)

lemma sample_compatible:
  "shouldSkipNode 137 (sample_world 200000000000 a) n = (False, [Dial (node_ID n), Peer (node_ID n)])"
  by (simp add: shouldSkipNode_def sample_world_def)

lemma sample_prior:
  "prior (sample_crawler s) sample_node = sample_record s"
  "prior (sample_crawler s) sample_unknown = zero_NodeJSON"
  by (simp_all add: prior_def sample_crawler_def newCrawler_def sample_node_def sample_unknown_def)

lemma sample_answer: "RequestENR_result (sample_world t a) = a"
  by (simp add: sample_world_def)

lemma sample_stamp: "truncNow (now_stamp (sample_world 200000000000 a)) = 200000000000"
  by (simp add: sample_world_def truncNow_def)

lemma sample_ids:
  "node_ID sample_node = 1" "node_ID sample_unknown = 2"
  "node_Seq sample_fresher = 6" "node_Seq sample_unknown = 1"
  by (simp_all add: sample_node_def sample_unknown_def sample_fresher_def)

text \<open>
  For C1: a known node of score 3 is updated to score 4 and sequence number
  6; an unknown node is added with score 1.
\<close>

theorem updateNode_resolver_success_witness:
  "\<not> recent (sample_world 200000000000 (Some sample_fresher)) (sample_crawler 3) sample_node
   \<and> shouldSkipNode 137 (sample_world 200000000000 (Some sample_fresher)) sample_node
       = (False, [Dial 1, Peer 1])
   \<and> RequestENR_result (sample_world 200000000000 (Some sample_fresher)) = Some sample_fresher
   \<and> 0 <s Score (prior (sample_crawler 3) sample_node) + 1
   \<and> updateNode 137 (sample_world 200000000000 (Some sample_fresher)) (sample_crawler 3) sample_node
       = (nodeUpdated,
          (sample_crawler 3)\<lparr>output_set := (output_set (sample_crawler 3))(1 \<mapsto>
             \<lparr> Seq = 6, N = Some sample_fresher, Score = 4, FirstResponse = 50000000000,
               LastResponse = 200000000000, LastCheck = 200000000000 \<rparr>)\<rparr>,
          [Dial 1, Peer 1, RequestENR 1])
   \<and> updateNode 137 (sample_world 200000000000 (Some sample_unknown)) (sample_crawler 3) sample_unknown
       = (nodeAdded,
          (sample_crawler 3)\<lparr>output_set := (output_set (sample_crawler 3))(2 \<mapsto>
             \<lparr> Seq = 1, N = Some sample_unknown, Score = 1, FirstResponse = 200000000000,
               LastResponse = 200000000000, LastCheck = 200000000000 \<rparr>)\<rparr>,
          [Dial 2, Peer 2, RequestENR 2])"
proof -
  have a: "0 <s Score (prior (sample_crawler 3) sample_node) + 1"
    by (simp add: sample_prior sample_record_def word_sless_alt)
  have b: "0 <s Score (prior (sample_crawler 3) sample_unknown) + 1"
    by (simp add: sample_prior zero_NodeJSON_def word_sless_alt)
  have c: "updateNode 137 (sample_world 200000000000 (Some sample_fresher)) (sample_crawler 3) sample_node
       = (nodeUpdated,
          (sample_crawler 3)\<lparr>output_set := (output_set (sample_crawler 3))(1 \<mapsto>
             \<lparr> Seq = 6, N = Some sample_fresher, Score = 4, FirstResponse = 50000000000,
               LastResponse = 200000000000, LastCheck = 200000000000 \<rparr>)\<rparr>,
          [Dial 1, Peer 1, RequestENR 1])"
    using updateNode_resolver_success
        [OF sample_not_recent [of "Some sample_fresher" 3] sample_compatible sample_answer] a
    by (simp add: sample_prior sample_stamp sample_record_def sample_ids)
  have d: "updateNode 137 (sample_world 200000000000 (Some sample_unknown)) (sample_crawler 3) sample_unknown
       = (nodeAdded,
          (sample_crawler 3)\<lparr>output_set := (output_set (sample_crawler 3))(2 \<mapsto>
             \<lparr> Seq = 1, N = Some sample_unknown, Score = 1, FirstResponse = 200000000000,
               LastResponse = 200000000000, LastCheck = 200000000000 \<rparr>)\<rparr>,
          [Dial 2, Peer 2, RequestENR 2])"
    using updateNode_resolver_success
        [OF sample_unknown_not_recent [of "Some sample_unknown" 3] sample_compatible sample_answer] b
    by (simp add: sample_prior sample_stamp zero_NodeJSON_def sample_ids)
  from a c d show ?thesis
    using sample_not_recent [of "Some sample_fresher" 3]
    by (simp add: sample_compatible sample_answer sample_ids)
qed

text \<open>
  C1 as stated fails: for a stored node of score -1 that passed both checks
  and whose resolver query succeeds, the incremented score is 0, so the entry
  is deleted and the outcome is removed: no record is stored.
\<close>

theorem updateNode_negative_score_counterexample:
  "\<not> recent (sample_world 200000000000 (Some sample_fresher)) (sample_crawler (- 1)) sample_node
   \<and> shouldSkipNode 137 (sample_world 200000000000 (Some sample_fresher)) sample_node
       = (False, [Dial 1, Peer 1])
   \<and> RequestENR_result (sample_world 200000000000 (Some sample_fresher)) = Some sample_fresher
   \<and> output_set (sample_crawler (- 1)) 1 = Some (sample_record (- 1))
   \<and> updateNode 137 (sample_world 200000000000 (Some sample_fresher)) (sample_crawler (- 1)) sample_node
       = (nodeRemoved,
          (sample_crawler (- 1))\<lparr>output_set := (output_set (sample_crawler (- 1)))(1 := None)\<rparr>,
          [Dial 1, Peer 1, RequestENR 1])"
proof -
  have "updateNode 137 (sample_world 200000000000 (Some sample_fresher)) (sample_crawler (- 1)) sample_node
       = (nodeRemoved,
          (sample_crawler (- 1))\<lparr>output_set := (output_set (sample_crawler (- 1)))(1 := None)\<rparr>,
          [Dial 1, Peer 1, RequestENR 1])"
    by (simp add: updateNode_def sample_not_recent sample_compatible sample_answer sample_prior
        store_node_def Let_def sample_record_def sample_ids)
  moreover have "output_set (sample_crawler (- 1)) 1 = Some (sample_record (- 1))"
    by (simp add: sample_crawler_def newCrawler_def)
  ultimately show ?thesis
    using sample_not_recent [of "Some sample_fresher" "- 1"]
    by (simp add: sample_compatible sample_answer sample_ids)
qed

text \<open>
  For C2: score 3 is halved to 1 and stored; score 1 is halved to 0 and the
  node removed; an unknown node, of score 0, is skipped as incompatible.
\<close>

theorem updateNode_resolver_failure_witness:
  "\<not> recent (sample_world 200000000000 None) (sample_crawler 3) sample_node
   \<and> shouldSkipNode 137 (sample_world 200000000000 None) sample_node = (False, [Dial 1, Peer 1])
   \<and> RequestENR_result (sample_world 200000000000 None) = None
   \<and> updateNode 137 (sample_world 200000000000 None) (sample_crawler 3) sample_node
       = (nodeUpdated,
          (sample_crawler 3)\<lparr>output_set := (output_set (sample_crawler 3))(1 \<mapsto>
             \<lparr> Seq = 5, N = Some sample_node, Score = 1, FirstResponse = 50000000000,
               LastResponse = 90000000000, LastCheck = 200000000000 \<rparr>)\<rparr>,
          [Dial 1, Peer 1, RequestENR 1])
   \<and> updateNode 137 (sample_world 200000000000 None) (sample_crawler 1) sample_node
       = (nodeRemoved,
          (sample_crawler 1)\<lparr>output_set := (output_set (sample_crawler 1))(1 := None)\<rparr>,
          [Dial 1, Peer 1, RequestENR 1])
   \<and> updateNode 137 (sample_world 200000000000 None) (sample_crawler 3) sample_unknown
       = (nodeSkipIncompat, sample_crawler 3, [Dial 2, Peer 2, RequestENR 2])"
proof -
  have h3: "halve 3 = 1" and h1: "halve 1 = 0"
    by (simp_all add: halve_def signed_divide_int_def)
  have s: "(0 :: 64 word) <s 3" "(0 :: 64 word) <s 1" "\<not> (1 :: 64 word) \<le>s 0"
    by (simp_all add: word_sless_alt word_sle_eq)
  have a: "updateNode 137 (sample_world 200000000000 None) (sample_crawler 3) sample_node
       = (nodeUpdated,
          (sample_crawler 3)\<lparr>output_set := (output_set (sample_crawler 3))(1 \<mapsto>
             \<lparr> Seq = 5, N = Some sample_node, Score = 1, FirstResponse = 50000000000,
               LastResponse = 90000000000, LastCheck = 200000000000 \<rparr>)\<rparr>,
          [Dial 1, Peer 1, RequestENR 1])"
    using updateNode_resolver_failure [OF sample_not_recent sample_compatible sample_answer,
        of 3] h3 s
    by (simp add: sample_prior sample_stamp sample_record_def sample_ids)
  have b: "updateNode 137 (sample_world 200000000000 None) (sample_crawler 1) sample_node
       = (nodeRemoved,
          (sample_crawler 1)\<lparr>output_set := (output_set (sample_crawler 1))(1 := None)\<rparr>,
          [Dial 1, Peer 1, RequestENR 1])"
    using updateNode_resolver_failure [OF sample_not_recent sample_compatible sample_answer,
        of 1] h1 s
    by (simp add: sample_prior sample_stamp sample_record_def sample_ids)
  have c: "updateNode 137 (sample_world 200000000000 None) (sample_crawler 3) sample_unknown
       = (nodeSkipIncompat, sample_crawler 3, [Dial 2, Peer 2, RequestENR 2])"
    using updateNode_resolver_failure [OF sample_unknown_not_recent sample_compatible sample_answer,
        of 3]
    by (simp add: sample_prior zero_NodeJSON_def sample_ids)
  from a b c show ?thesis
    using sample_not_recent [of None 3]
    by (simp add: sample_compatible sample_answer sample_ids)
qed


text \<open>Storing keeps the scores of the output set positive, and so does a call.\<close>

lemma store_node_positive:
  assumes "positive_scores (output_set c)"
  shows "positive_scores (output_set (snd (store_node c n node st)))"
proof (cases "Score node \<le>s 0")
  case True
  then have "output_set (snd (store_node c n node st)) = (output_set c)(node_ID n := None)"
    by (simp add: store_node_def)
  with assms show ?thesis
    by (auto simp: positive_scores_def ran_def split: if_splits)
next
  case False
  then have pos: "0 <s Score node"
    by (simp add: signed.not_le)
  from False have "output_set (snd (store_node c n node st)) = (output_set c)(node_ID n \<mapsto> node)"
    by (simp add: store_node_def)
  with assms pos show ?thesis
    by (auto simp: positive_scores_def ran_def split: if_splits)
qed

lemma updateNode_output:
  "fst (snd (updateNode NetworkID w c n)) = c
   \<or> (\<exists>node st. fst (snd (updateNode NetworkID w c n)) = snd (store_node c n node st))"
proof (cases "recent w c n")
  case True
  then show ?thesis by (simp add: updateNode_def)
next
  case False
  obtain skip ios where sk: "shouldSkipNode NetworkID w n = (skip, ios)"
    by (cases "shouldSkipNode NetworkID w n")
  show ?thesis
  proof (cases skip)
    case True
    with False sk show ?thesis by (simp add: updateNode_def)
  next
    case noskip: False
    show ?thesis
    proof (cases "RequestENR_result w")
      case None
      with False sk noskip show ?thesis
        by (cases "Score (prior c n) = 0")
          (auto simp: updateNode_def Let_def case_prod_beta)
    next
      case (Some nn)
      with False sk noskip show ?thesis
        by (auto simp: updateNode_def Let_def case_prod_beta)
    qed
  qed
qed

lemma updateNode_entry:
  "output_set (fst (snd (updateNode NetworkID w c n))) k = output_set c k
   \<or> k = node_ID n
     \<and> (case output_set (fst (snd (updateNode NetworkID w c n))) k of
          None \<Rightarrow> True
        | Some node \<Rightarrow> 0 <s Score node)"
proof -
  from updateNode_output [of NetworkID w c n]
  consider "fst (snd (updateNode NetworkID w c n)) = c"
    | node st where "fst (snd (updateNode NetworkID w c n)) = snd (store_node c n node st)"
    by blast
  then show ?thesis
  proof cases
    case 1
    then show ?thesis by simp
  next
    case 2
    then show ?thesis
      by (simp add: store_node_def signed.not_le)
  qed
qed

lemma updateNode_positive:
  assumes "positive_scores (output_set c)"
  shows "positive_scores (output_set (fst (snd (updateNode NetworkID w c n))))"
  using assms updateNode_output [of NetworkID w c n]
  by (auto simp: store_node_positive)

text \<open>
  C4, as the code has it. When every record of the input set has a positive
  score, then after every sequence of \<^verbatim>\<open>updateNode\<close> calls, started from the
  output set that \<^verbatim>\<open>newCrawler\<close> copied from the input set, every record of the
  output set has a positive score. The calls are taken one after another.
  Whatever the crawler holds, a call changes no entry but the candidate's,
  and leaves that one as it was, absent, or with a positive score.
\<close>

theorem updateNodes_positive_scores:
  assumes "positive_scores inp"
  shows "positive_scores
     (output_set (updateNodes NetworkID ((newCrawler inp)\<lparr>revalidateInterval := d\<rparr>) calls))
   \<and> (output_set (fst (snd (updateNode NetworkID w c n))) k = output_set c k
      \<or> k = node_ID n
        \<and> (case output_set (fst (snd (updateNode NetworkID w c n))) k of
             None \<Rightarrow> True
           | Some node \<Rightarrow> 0 <s Score node))"
proof -
  have "positive_scores (output_set c) \<Longrightarrow>
          positive_scores (output_set (updateNodes NetworkID c calls))" for c
  proof (induction calls arbitrary: c)
    case Nil
    then show ?case by simp
  next
    case (Cons call calls)
    obtain w n where "call = (w, n)" by (cases call)
    with Cons show ?case
      by (simp add: updateNode_positive)
  qed
  with assms have "positive_scores
     (output_set (updateNodes NetworkID ((newCrawler inp)\<lparr>revalidateInterval := d\<rparr>) calls))"
    by (simp add: newCrawler_def)
  with updateNode_entry [of NetworkID w c n k] show ?thesis
    by blast
qed

text \<open>
  For C4: from an input set with one node of score 1, a failed query removes
  that node and a successful query adds another.
\<close>

theorem updateNodes_positive_scores_witness:
  "positive_scores [1 \<mapsto> sample_record 1]
   \<and> positive_scores
       (output_set (updateNodes 137 (sample_crawler 1)
          [(sample_world 200000000000 None, sample_node),
           (sample_world 200000000000 (Some sample_unknown), sample_unknown)]))
   \<and> output_set (updateNodes 137 (sample_crawler 1)
          [(sample_world 200000000000 None, sample_node),
           (sample_world 200000000000 (Some sample_unknown), sample_unknown)]) 1 = None"
proof -
  have a: "positive_scores [1 \<mapsto> sample_record 1]"
    by (simp add: positive_scores_def sample_record_def word_sless_alt)
  have b: "updateNode 137 (sample_world 200000000000 None) (sample_crawler 1) sample_node
       = (nodeRemoved,
          (sample_crawler 1)\<lparr>output_set := (output_set (sample_crawler 1))(1 := None)\<rparr>,
          [Dial 1, Peer 1, RequestENR 1])"
    by (simp add: updateNode_def sample_not_recent sample_compatible sample_answer sample_prior
        store_node_def Let_def sample_record_def sample_ids halve_def signed_divide_int_def)
  have c: "output_set (fst (snd (updateNode 137 (sample_world 200000000000 (Some sample_unknown))
             ((sample_crawler 1)\<lparr>output_set := (output_set (sample_crawler 1))(1 := None)\<rparr>)
             sample_unknown))) 1 = None"
    by (simp add: updateNode_def recent_def shouldSkipNode_def sample_world_def prior_def
        sample_crawler_def newCrawler_def store_node_def Let_def sample_ids zero_NodeJSON_def
        split: prod.splits)
  show ?thesis
    using updateNodes_positive_scores [OF a, of 137 30000000000
        "[(sample_world 200000000000 None, sample_node),
          (sample_world 200000000000 (Some sample_unknown), sample_unknown)]"]
      a b c
    by (simp add: sample_crawler_def [symmetric])
qed

text \<open>
  C4 as stated fails: a record of score 0 copied from the input set stays in
  the output set. The call for it, whose resolver query fails, returns
  skip-incompatible before the store is touched.
\<close>

theorem updateNodes_zero_score_counterexample:
  "output_set (sample_crawler 0) 1 = Some (sample_record 0)
   \<and> updateNode 137 (sample_world 200000000000 None) (sample_crawler 0) sample_node
       = (nodeSkipIncompat, sample_crawler 0, [Dial 1, Peer 1, RequestENR 1])
   \<and> \<not> positive_scores
       (output_set (updateNodes 137 (sample_crawler 0)
          [(sample_world 200000000000 None, sample_node)]))"
proof -
  have a: "output_set (sample_crawler 0) 1 = Some (sample_record 0)"
    by (simp add: sample_crawler_def newCrawler_def)
  have b: "updateNode 137 (sample_world 200000000000 None) (sample_crawler 0) sample_node
       = (nodeSkipIncompat, sample_crawler 0, [Dial 1, Peer 1, RequestENR 1])"
    by (simp add: updateNode_def sample_not_recent sample_compatible sample_answer sample_prior
        Let_def sample_record_def sample_ids)
  have "sample_record 0 \<in> ran (output_set (sample_crawler 0))"
    using a by (auto simp: ran_def)
  moreover have "\<not> 0 <s Score (sample_record 0)"
    by (simp add: sample_record_def)
  ultimately have "\<not> positive_scores (output_set (sample_crawler 0))"
    by (auto simp: positive_scores_def)
  with a b show ?thesis by simp
qed

end
